theory Spec2Isabelle
  imports Main
begin

section \<open>Data model\<close>

text \<open>
  The permission checker of package \<open>permission\<close>. A request is the struct
  \<open>view.ReqPermission\<close>; its declaration is outside the sources at hand, so the record
  has exactly the fields the code reads, at the types the code forces on them
  (\<open>UserId\<close> goes to \<open>strconv.Itoa\<close> and to \<open>isRootUser(uid int)\<close>; the four string
  fields are compared with the empty string or handed to a variadic string function;
  \<open>Acts\<close> is spread into a variadic string function). No arithmetic is done on
  \<open>UserId\<close>, so Go's \<open>int\<close> is read as a mathematical integer.
\<close>

record ReqPermission =
  UserId :: int
  ObjectType :: string
  ObjectIdx :: string
  SubResource :: string
  Acts :: "string list"
  DomainType :: string
  DomainId :: string

text \<open>The struct the canonicaliser returns.\<close>

record casbinItemsFromReqPermission =
  ReqSub :: string
  ReqObj :: string
  ReqAct :: string
  ReqDom :: string

text \<open>
  Go errors as values. The first four are the errors the code itself builds with
  \<open>fmt.Errorf\<close>: the empty-field message, \<open>ObjectType(%s) is invalid\<close>, the wrapper
  \<open>ReqPermission is invalid. %w\<close> and \<open>MsgNoPermission\<close>. \<open>External\<close> stands for
  an error value made by code outside these sources (the domain-lock gate, the policy
  engine, the string assembler), carrying its message.
\<close>

datatype error =
    EmptyFields
  | InvalidObjectType string
  | InvalidReqPermission error
  | NoPermission
  | External string

text \<open>
  The two implementations of the interface \<open>UserPmsChecker\<close>. A Go interface value
  may be nil: a value of the interface type is an \<open>option\<close>, with \<open>None\<close> for nil.
\<close>

datatype UserPmsChecker = defaultChecker | podTerminalChecker

text \<open>
  Calls that leave the package, in the order they are made. A check returns the
  error-or-nil of the Go function together with this log, so that "the engine is not
  consulted" is a statement about the log. Logger calls are left out: they do not
  influence any result.
\<close>

datatype call =
    CallCheckDomLockIfActWrite ReqPermission
  | CallIsRootWithoutCheckingSysLock int
  | CallEnforce string string string string
  | CallEnforceOneInMany "string list list"

fun isEngineCall :: "call \<Rightarrow> bool" where
  "isEngineCall (CallEnforce s ob a d) = True"
| "isEngineCall (CallEnforceOneInMany rs) = True"
| "isEngineCall (CallCheckDomLockIfActWrite r) = False"
| "isEngineCall (CallIsRootWithoutCheckingSysLock u) = False"

section \<open>What the code takes from outside\<close>

text \<open>
  The constants, the table and the functions of package \<open>pmsplugin\<close>, and the method
  \<open>CheckDomLockIfActWrite\<close> of the embedded \<open>baseChecker\<close>, are not among the sources.
  They are parameters: every theorem below that quantifies over \<open>env\<close> holds for any
  value of the constants and any behaviour of the functions. Each function is called
  at most once per check with given arguments, so a function of the arguments describes
  one run. A Go function returning \<open>(T, error)\<close> returns a pair whose second
  component is \<open>None\<close> for a nil error. \<open>PermittedPrefixMap\<close> is only tested for
  membership of a key, so it is the set of its keys. The gate receives the request by
  pointer; it is read as a query that leaves the request as it was, which is how the
  specification describes the lock lookup.
\<close>

record env =
  PrefixUser :: string
  PrefixRoute :: string
  PrefixTable :: string
  PrefixSubRsrc :: string
  AppPodTerminal :: string
  PermittedPrefixMap :: "string set"
  Assemble2CasbinStr :: "string list \<Rightarrow> string \<times> error option"
  JointActs2RuleActStr :: "string list \<Rightarrow> string"
  Enforce :: "string \<Rightarrow> string \<Rightarrow> string \<Rightarrow> string \<Rightarrow> bool \<times> error option"
  EnforceOneInMany :: "string list list \<Rightarrow> bool \<times> error option"
  IsRootWithoutCheckingSysLock :: "int \<Rightarrow> bool"
  CheckDomLockIfActWrite :: "ReqPermission \<Rightarrow> error option"

subsection \<open>Go's standard library\<close>

text \<open>\<open>strconv.Itoa\<close>: the decimal digits, with a minus sign for a negative number.\<close>

fun digits :: "nat \<Rightarrow> string" where
  "digits n =
     (if n < 10 then [''0123456789'' ! n]
      else digits (n div 10) @ [''0123456789'' ! (n mod 10)])"

declare digits.simps [simp del]

definition Itoa :: "int \<Rightarrow> string" where
  "Itoa i = (if i < 0 then CHR ''-'' # digits (nat (- i)) else digits (nat i))"

text \<open>\<open>strings.Join\<close>.\<close>

fun join :: "string \<Rightarrow> string list \<Rightarrow> string" where
  "join sep [] = []"
| "join sep [x] = x"
| "join sep (x # y # ys) = x @ sep @ join sep (y # ys)"

section \<open>The strategy table\<close>

text \<open>
  \<open>strategies\<close>: the package-level map literal, object type to sub-resource to checker.
  Its one entry holds a pointer to a fresh \<open>podTerminalChecker\<close>, a non-nil value.
\<close>

definition strategies :: "env \<Rightarrow> string \<rightharpoonup> (string \<rightharpoonup> UserPmsChecker option)" where
  "strategies env =
     [PrefixTable env \<mapsto> [AppPodTerminal env \<mapsto> Some podTerminalChecker]]"

definition newUserPmsCheckStrategy :: "env \<Rightarrow> string \<Rightarrow> string \<Rightarrow> UserPmsChecker option" where
  "newUserPmsCheckStrategy env objType subResource =
     (case strategies env objType of
        None \<Rightarrow> Some defaultChecker
      | Some subResourceCheckerMap \<Rightarrow>
          (case subResourceCheckerMap subResource of
             None \<Rightarrow> Some defaultChecker
           | Some checker \<Rightarrow> checker))"

section \<open>The canonicaliser\<close>

text \<open>
  \<open>getCasbinItemsFromReqPermission\<close>. The two early returns are the \<open>Inl\<close> branches.
  The errors of the first two calls of \<open>Assemble2CasbinStr\<close> are bound to the blank
  identifier in the source: only the string component is used. The error of the third
  call replaces the domain by the wildcard.
\<close>

definition getCasbinItemsFromReqPermission ::
  "env \<Rightarrow> ReqPermission \<Rightarrow> error + casbinItemsFromReqPermission" where
  "getCasbinItemsFromReqPermission env reqPms =
     (if UserId reqPms = 0 \<or> ObjectType reqPms = [] \<or> ObjectIdx reqPms = []
         \<or> SubResource reqPms = []
      then Inl EmptyFields
      else if ObjectType reqPms \<notin> PermittedPrefixMap env
      then Inl (InvalidObjectType (ObjectType reqPms))
      else
        let reqSub = fst (Assemble2CasbinStr env [PrefixUser env, Itoa (UserId reqPms)]);
            reqObj = fst (Assemble2CasbinStr env
                       [ObjectType reqPms, ObjectIdx reqPms, PrefixSubRsrc env, SubResource reqPms]);
            reqAct0 = JointActs2RuleActStr env (Acts reqPms);
            reqAct = (if reqAct0 = [] then ''*'' else reqAct0);
            (reqDom0, err) = Assemble2CasbinStr env [DomainType reqPms, DomainId reqPms];
            reqDom = (if err \<noteq> None then ''*'' else reqDom0)
        in Inr \<lparr>ReqSub = reqSub, ReqObj = reqObj, ReqAct = reqAct, ReqDom = reqDom\<rparr>)"

section \<open>The checkers\<close>

text \<open>\<open>isRootUser\<close>: the lookup is made only for a positive user id.\<close>

definition isRootUser :: "env \<Rightarrow> int \<Rightarrow> bool \<times> call list" where
  "isRootUser env uid =
     (if uid \<le> 0 then (False, [])
      else (IsRootWithoutCheckingSysLock env uid, [CallIsRootWithoutCheckingSysLock uid]))"

text \<open>
  Modelled from the spec: \<open>pmsplugin.Convert2InterfaceSlice\<close> is not among the
  sources. The specification has the default checker hand the one built tuple to the
  any-of adapter; the function boxes its four string arguments as a slice of
  \<open>interface{}\<close>, and with strings as the only values boxed the slice is the list
  itself.
\<close>

definition Convert2InterfaceSlice :: "string list \<Rightarrow> string list" where
  "Convert2InterfaceSlice items = items"

text \<open>
  \<open>defaultChecker.Check\<close>, statement by statement: the route branch, the domain-lock
  gate, the root test, the canonicaliser, the any-of enforcement of the one rule, and
  the verdict read from the boolean alone (the engine's error is only logged).
\<close>

definition defaultChecker_Check :: "env \<Rightarrow> ReqPermission \<Rightarrow> error option \<times> call list" where
  "defaultChecker_Check env reqPms =
     (if ObjectType reqPms = PrefixRoute env then (None, [])
      else
        let t1 = [CallCheckDomLockIfActWrite reqPms] in
        case CheckDomLockIfActWrite env reqPms of
          Some err \<Rightarrow> (Some err, t1)
        | None \<Rightarrow>
            let (root, t2) = isRootUser env (UserId reqPms) in
            if root then (None, t1 @ t2)
            else
              (case getCasbinItemsFromReqPermission env reqPms of
                 Inl err \<Rightarrow> (Some (InvalidReqPermission err), t1 @ t2)
               | Inr items \<Rightarrow>
                   let reqRules = [] @ [Convert2InterfaceSlice
                                    [ReqSub items, ReqObj items, ReqAct items, ReqDom items]];
                       (pmsPassed, err) = EnforceOneInMany env reqRules;
                       t3 = [CallEnforceOneInMany reqRules]
                   in if \<not> pmsPassed then (Some NoPermission, t1 @ t2 @ t3)
                      else (None, t1 @ t2 @ t3)))"

text \<open>\<open>podTerminalChecker.Check\<close>: no route branch, and the single-rule \<open>Enforce\<close>.\<close>

definition podTerminalChecker_Check :: "env \<Rightarrow> ReqPermission \<Rightarrow> error option \<times> call list" where
  "podTerminalChecker_Check env reqPms =
     (let t1 = [CallCheckDomLockIfActWrite reqPms] in
      case CheckDomLockIfActWrite env reqPms of
        Some err \<Rightarrow> (Some err, t1)
      | None \<Rightarrow>
          let (root, t2) = isRootUser env (UserId reqPms) in
          if root then (None, t1 @ t2)
          else
            (case getCasbinItemsFromReqPermission env reqPms of
               Inl err \<Rightarrow> (Some (InvalidReqPermission err), t1 @ t2)
             | Inr items \<Rightarrow>
                 let (pmsPassed, err) =
                       Enforce env (ReqSub items) (ReqObj items) (ReqAct items) (ReqDom items);
                     t3 = [CallEnforce (ReqSub items) (ReqObj items) (ReqAct items) (ReqDom items)]
                 in if \<not> pmsPassed then (Some NoPermission, t1 @ t2 @ t3)
                    else (None, t1 @ t2 @ t3)))"

text \<open>The method call \<open>checker.Check(reqPms)\<close> on a non-nil checker.\<close>

fun Check :: "UserPmsChecker \<Rightarrow> env \<Rightarrow> ReqPermission \<Rightarrow> error option \<times> call list" where
  "Check defaultChecker env reqPms = defaultChecker_Check env reqPms"
| "Check podTerminalChecker env reqPms = podTerminalChecker_Check env reqPms"

section \<open>The collaborators as the specification describes them\<close>

text \<open>
  Modelled from the spec: \<open>pmsplugin.Assemble2CasbinStr\<close> is not among the sources.
  The specification has it join its items with a reserved separator, and has the domain
  fall back to the wildcard when either of its two items is empty: the join fails on an
  empty item and returns the empty string with the error. The separator is a parameter.
\<close>

definition Assemble2CasbinStr_spec :: "string \<Rightarrow> string list \<Rightarrow> string \<times> error option" where
  "Assemble2CasbinStr_spec sep items =
     (if [] \<in> set items then ([], Some (External ''empty item''))
      else (join sep items, None))"

text \<open>
  Modelled from the spec: \<open>pmsplugin.JointActs2RuleActStr\<close> is not among the sources.
  The specification has it join all action names with a defined action separator, which
  is a parameter here.
\<close>

definition JointActs2RuleActStr_spec :: "string \<Rightarrow> string list \<Rightarrow> string" where
  "JointActs2RuleActStr_spec actSep acts = join actSep acts"

text \<open>
  Modelled from the spec: \<open>pmsplugin.EnforceOneInMany\<close> is not among the sources.
  The specification has it return true as soon as one rule is permitted by the engine,
  and the engine's error only when no rule matched and an evaluation failed. A rule is
  handed to the engine as its four strings.
\<close>

fun EnforceRule ::
  "(string \<Rightarrow> string \<Rightarrow> string \<Rightarrow> string \<Rightarrow> bool \<times> error option) \<Rightarrow> string list \<Rightarrow> bool \<times> error option" where
  "EnforceRule enf [s, ob, a, d] = enf s ob a d"
| "EnforceRule enf rule = (False, Some (External ''malformed rule''))"

fun EnforceOneInMany_spec ::
  "(string \<Rightarrow> string \<Rightarrow> string \<Rightarrow> string \<Rightarrow> bool \<times> error option) \<Rightarrow> string list list \<Rightarrow> bool \<times> error option" where
  "EnforceOneInMany_spec enf [] = (False, None)"
| "EnforceOneInMany_spec enf (rule # rules) =
     (let (ok, err) = EnforceRule enf rule in
      if ok then (True, None)
      else
        let (ok', err') = EnforceOneInMany_spec enf rules in
        if ok' then (True, None)
        else (False, (if err \<noteq> None then err else err')))"

text \<open>
  Modelled from the spec: \<open>baseChecker.CheckDomLockIfActWrite\<close> is not among the
  sources. The specification has the gate ask \<open>IsLocked(domainType, domainId, acts)\<close>,
  which is true only for a write-class action set on a locked domain, and fail with the
  domain-locked error when it is. The lookup is a parameter.
\<close>

definition CheckDomLockIfActWrite_spec ::
  "(string \<Rightarrow> string \<Rightarrow> string list \<Rightarrow> bool) \<Rightarrow> ReqPermission \<Rightarrow> error option" where
  "CheckDomLockIfActWrite_spec isLocked reqPms =
     (if isLocked (DomainType reqPms) (DomainId reqPms) (Acts reqPms)
      then Some (External ''DomainLockedError'')
      else None)"

subsection \<open>The scenario of the specification\<close>

text \<open>
  Modelled from the spec: the values of the \<open>pmsplugin\<close> constants and the state of the
  collaborators in the specification's test scenarios. User 7 may select on table T1
  (the engine allows the tuple \<open>(user:7, table:T1:sub:read, select, *)\<close> and nothing
  else), the domain \<open>env/prod\<close> is locked for the action \<open>write\<close>, and user 1 is
  root. The object types named by the specification are permitted. The action separator
  is not fixed by the specification; a comma is taken.
\<close>

definition scenario_Enforce ::
  "string \<Rightarrow> string \<Rightarrow> string \<Rightarrow> string \<Rightarrow> bool \<times> error option" where
  "scenario_Enforce s ob a d =
     (s = ''user:7'' \<and> ob = ''table:T1:sub:read'' \<and> a = ''select'' \<and> d = ''*'', None)"

definition scenario_IsLocked :: "string \<Rightarrow> string \<Rightarrow> string list \<Rightarrow> bool" where
  "scenario_IsLocked domainType domainId acts =
     (''write'' \<in> set acts \<and> domainType = ''env'' \<and> domainId = ''prod'')"

definition scenario_IsRoot :: "int \<Rightarrow> bool" where
  "scenario_IsRoot uid = (uid = 1)"

definition scenario_env :: env where
  "scenario_env =
     \<lparr>PrefixUser = ''user'', PrefixRoute = ''route'', PrefixTable = ''table'',
      PrefixSubRsrc = ''sub'', AppPodTerminal = ''pod-terminal'',
      PermittedPrefixMap = {''route'', ''table'', ''app-pod''},
      Assemble2CasbinStr = Assemble2CasbinStr_spec '':'',
      JointActs2RuleActStr = JointActs2RuleActStr_spec '','',
      Enforce = scenario_Enforce,
      EnforceOneInMany = EnforceOneInMany_spec scenario_Enforce,
      IsRootWithoutCheckingSysLock = scenario_IsRoot,
      CheckDomLockIfActWrite = CheckDomLockIfActWrite_spec scenario_IsLocked\<rparr>"

definition scenario_req :: ReqPermission where
  "scenario_req =
     \<lparr>UserId = 7, ObjectType = ''table'', ObjectIdx = ''T1'', SubResource = ''read'',
      Acts = [''select''], DomainType = [], DomainId = []\<rparr>"

text \<open>
  A degraded installation, for the error paths: the rule store answers every query with
  an error beside its boolean, and the string assembler fails on every call.
\<close>

definition degraded_Enforce ::
  "string \<Rightarrow> string \<Rightarrow> string \<Rightarrow> string \<Rightarrow> bool \<times> error option" where
  "degraded_Enforce s ob a d =
     (fst (scenario_Enforce s ob a d), Some (External ''rule store unavailable''))"

definition failing_Assemble2CasbinStr :: "string list \<Rightarrow> string \<times> error option" where
  "failing_Assemble2CasbinStr items = ([], Some (External ''assemble failed''))"

definition degraded_env :: env where
  "degraded_env =
     scenario_env\<lparr>Enforce := degraded_Enforce,
                  EnforceOneInMany := EnforceOneInMany_spec degraded_Enforce\<rparr>"

definition unassembled_env :: env where
  "unassembled_env = scenario_env\<lparr>Assemble2CasbinStr := failing_Assemble2CasbinStr\<rparr>"




section \<open>Theorems\<close>

subsection \<open>Facts about the root test\<close>

lemma isRootUser_no_engine: "filter isEngineCall (snd (isRootUser env uid)) = []"
  by (simp add: isRootUser_def)

lemma isRootUser_not_root:
  "\<not> fst (isRootUser env uid) \<Longrightarrow> \<exists>t2. isRootUser env uid = (False, t2)"
  by (cases "isRootUser env uid") simp

subsection \<open>Validation of the user id\<close>

text \<open>
  C1, as the code has it. A request whose \<open>UserId\<close> is zero, and which the domain-lock
  gate lets through, is refused with the validation error for an empty required field,
  wrapped as an invalid request: by the pod-terminal checker always, by the default
  checker when the object type is not the route category. Only the gate has been called.
\<close>

theorem zero_user_invalid:
  assumes "UserId reqPms = 0"
    and "CheckDomLockIfActWrite env reqPms = None"
    and "checker = podTerminalChecker \<or> ObjectType reqPms \<noteq> PrefixRoute env"
  shows "Check checker env reqPms =
           (Some (InvalidReqPermission EmptyFields), [CallCheckDomLockIfActWrite reqPms])"
proof -
  have root: "isRootUser env (UserId reqPms) = (False, [])"
    using assms(1) by (simp add: isRootUser_def)
  have canon: "getCasbinItemsFromReqPermission env reqPms = Inl EmptyFields"
    using assms(1) by (simp add: getCasbinItemsFromReqPermission_def)
  show ?thesis
  proof (cases checker)
    case defaultChecker
    with assms(3) have "ObjectType reqPms \<noteq> PrefixRoute env" by simp
    with defaultChecker assms(2) root canon show ?thesis
      by (simp add: defaultChecker_Check_def)
  next
    case podTerminalChecker
    with assms(2) root canon show ?thesis
      by (simp add: podTerminalChecker_Check_def)
  qed
qed

text \<open>C1, witness: user 0 asking to select on table T1, on the default checker.\<close>

theorem zero_user_invalid_witness:
  "Check defaultChecker scenario_env (scenario_req\<lparr>UserId := 0\<rparr>) =
     (Some (InvalidReqPermission EmptyFields),
      [CallCheckDomLockIfActWrite (scenario_req\<lparr>UserId := 0\<rparr>)])"
proof -
  have u: "UserId (scenario_req\<lparr>UserId := 0\<rparr>) = 0" by simp
  have g: "CheckDomLockIfActWrite scenario_env (scenario_req\<lparr>UserId := 0\<rparr>) = None"
    by code_simp
  have t: "defaultChecker = podTerminalChecker
             \<or> ObjectType (scenario_req\<lparr>UserId := 0\<rparr>) \<noteq> PrefixRoute scenario_env"
    by code_simp
  from zero_user_invalid [OF u g t] show ?thesis .
qed

text \<open>
  C1 as stated fails in three ways. User \<open>-1\<close> passes the validation (which tests
  \<open>UserId == 0\<close>) and reaches the engine as subject \<open>user:-1\<close>, on both checkers:
  the answer is the engine's denial, not a validation error. User 0 asking for a route
  is permitted by the default checker. User 0 writing to the locked domain gets the
  gate's error.
\<close>

theorem nonpositive_user_counterexample:
  "UserId (scenario_req\<lparr>UserId := - 1\<rparr>) \<le> 0 \<and>
   Check podTerminalChecker scenario_env (scenario_req\<lparr>UserId := - 1\<rparr>) =
     (Some NoPermission,
      [CallCheckDomLockIfActWrite (scenario_req\<lparr>UserId := - 1\<rparr>),
       CallEnforce ''user:-1'' ''table:T1:sub:read'' ''select'' ''*'']) \<and>
   fst (Check defaultChecker scenario_env (scenario_req\<lparr>UserId := - 1\<rparr>)) = Some NoPermission \<and>
   Check defaultChecker scenario_env (scenario_req\<lparr>UserId := 0, ObjectType := ''route''\<rparr>)
     = (None, []) \<and>
   fst (Check podTerminalChecker scenario_env
         (scenario_req\<lparr>UserId := 0, Acts := [''write''], DomainType := ''env'', DomainId := ''prod''\<rparr>))
     = Some (External ''DomainLockedError'')"
  by code_simp

subsection \<open>Root bypass\<close>

text \<open>
  C2, as the code has it. When \<open>isRootUser\<close> answers true and the domain-lock gate,
  which is asked first, returns no error, the check returns nil on either checker and
  the log holds no call of the policy engine.
\<close>

theorem root_bypass:
  assumes root: "fst (isRootUser env (UserId reqPms))"
    and gate: "CheckDomLockIfActWrite env reqPms = None"
  shows "fst (Check checker env reqPms) = None \<and>
         filter isEngineCall (snd (Check checker env reqPms)) = []"
proof -
  obtain t2 where r: "isRootUser env (UserId reqPms) = (True, t2)"
    using root by (cases "isRootUser env (UserId reqPms)") simp
  have t2: "filter isEngineCall t2 = []"
    using isRootUser_no_engine [of env "UserId reqPms"] r by simp
  show ?thesis
  proof (cases checker)
    case defaultChecker
    with gate r t2 show ?thesis
      by (simp add: defaultChecker_Check_def)
  next
    case podTerminalChecker
    with gate r t2 show ?thesis
      by (simp add: podTerminalChecker_Check_def)
  qed
qed

text \<open>
  C2, witness: the root user 1 asks for a tuple the engine would deny (it allows user 7
  only); the pod-terminal checker permits without asking the engine.
\<close>

theorem root_bypass_witness:
  "fst (scenario_Enforce ''user:1'' ''table:T1:sub:read'' ''select'' ''*'') = False \<and>
   fst (Check podTerminalChecker scenario_env (scenario_req\<lparr>UserId := 1\<rparr>)) = None \<and>
   filter isEngineCall (snd (Check podTerminalChecker scenario_env (scenario_req\<lparr>UserId := 1\<rparr>))) = []"
proof -
  have r: "fst (isRootUser scenario_env (UserId (scenario_req\<lparr>UserId := 1\<rparr>)))"
    by code_simp
  have g: "CheckDomLockIfActWrite scenario_env (scenario_req\<lparr>UserId := 1\<rparr>) = None"
    by code_simp
  have d: "fst (scenario_Enforce ''user:1'' ''table:T1:sub:read'' ''select'' ''*'') = False"
    by code_simp
  from root_bypass [OF r g, of podTerminalChecker] d show ?thesis by simp
qed

text \<open>
  C2 as stated fails: the root user 1 writing to the locked domain \<open>env/prod\<close> is
  refused with the gate's error by both checkers, because the gate runs before the
  root test.
\<close>

theorem root_locked_counterexample:
  "fst (isRootUser scenario_env
         (UserId (scenario_req\<lparr>UserId := 1, Acts := [''write''], DomainType := ''env'', DomainId := ''prod''\<rparr>))) \<and>
   fst (Check defaultChecker scenario_env
         (scenario_req\<lparr>UserId := 1, Acts := [''write''], DomainType := ''env'', DomainId := ''prod''\<rparr>))
     = Some (External ''DomainLockedError'') \<and>
   fst (Check podTerminalChecker scenario_env
         (scenario_req\<lparr>UserId := 1, Acts := [''write''], DomainType := ''env'', DomainId := ''prod''\<rparr>))
     = Some (External ''DomainLockedError'')"
  by code_simp

subsection \<open>Domain-lock gate\<close>

text \<open>
  C3, as the code has it. When the domain-lock gate returns an error, the check returns
  that very error and the gate is the only call made, so the policy engine is not
  invoked: on the pod-terminal checker always, on the default checker when the object
  type is not the route category.
\<close>

theorem domain_lock_gate:
  assumes gate: "CheckDomLockIfActWrite env reqPms = Some err"
    and "checker = podTerminalChecker \<or> ObjectType reqPms \<noteq> PrefixRoute env"
  shows "Check checker env reqPms = (Some err, [CallCheckDomLockIfActWrite reqPms]) \<and>
         filter isEngineCall (snd (Check checker env reqPms)) = []"
  using assms
  by (cases checker) (simp_all add: defaultChecker_Check_def podTerminalChecker_Check_def)

text \<open>C3, witness: user 7 writing to table T1 in the locked domain \<open>env/prod\<close>.\<close>

theorem domain_lock_gate_witness:
  "Check defaultChecker scenario_env
     (scenario_req\<lparr>Acts := [''write''], DomainType := ''env'', DomainId := ''prod''\<rparr>) =
   (Some (External ''DomainLockedError''),
    [CallCheckDomLockIfActWrite
       (scenario_req\<lparr>Acts := [''write''], DomainType := ''env'', DomainId := ''prod''\<rparr>)])"
proof -
  let ?r = "scenario_req\<lparr>Acts := [''write''], DomainType := ''env'', DomainId := ''prod''\<rparr>"
  have g: "CheckDomLockIfActWrite scenario_env ?r = Some (External ''DomainLockedError'')"
    by code_simp
  have t: "defaultChecker = podTerminalChecker \<or> ObjectType ?r \<noteq> PrefixRoute scenario_env"
    by code_simp
  from domain_lock_gate [OF g t] show ?thesis by simp
qed

text \<open>
  C3 as stated fails on the default checker: a write to a route in the locked domain
  is permitted, and the gate that would have reported the lock is not asked.
\<close>

theorem route_locked_counterexample:
  "CheckDomLockIfActWrite scenario_env
     (scenario_req\<lparr>ObjectType := ''route'', Acts := [''write''], DomainType := ''env'', DomainId := ''prod''\<rparr>)
     = Some (External ''DomainLockedError'') \<and>
   Check defaultChecker scenario_env
     (scenario_req\<lparr>ObjectType := ''route'', Acts := [''write''], DomainType := ''env'', DomainId := ''prod''\<rparr>)
     = (None, [])"
  by code_simp

subsection \<open>Strategy selection\<close>

text \<open>
  C4. \<open>newUserPmsCheckStrategy\<close> never returns nil. For the table prefix with the
  pod-terminal sub-resource it returns the pod-terminal checker. For an object type
  absent from \<open>strategies\<close>, and for an object type present whose map lacks the
  sub-resource, it returns the default checker.
\<close>

theorem strategy_selection:
  "newUserPmsCheckStrategy env objType subResource \<noteq> None \<and>
   newUserPmsCheckStrategy env (PrefixTable env) (AppPodTerminal env) = Some podTerminalChecker \<and>
   (strategies env objType = None \<longrightarrow>
      newUserPmsCheckStrategy env objType subResource = Some defaultChecker) \<and>
   (\<forall>m. strategies env objType = Some m \<and> m subResource = None \<longrightarrow>
      newUserPmsCheckStrategy env objType subResource = Some defaultChecker)"
  by (simp add: newUserPmsCheckStrategy_def strategies_def)

text \<open>C4, witness: the three selections the specification lists.\<close>

theorem strategy_selection_witness:
  "newUserPmsCheckStrategy scenario_env ''table'' ''pod-terminal'' = Some podTerminalChecker \<and>
   newUserPmsCheckStrategy scenario_env ''table'' ''unknown'' = Some defaultChecker \<and>
   newUserPmsCheckStrategy scenario_env ''unknown-type'' ''x'' = Some defaultChecker"
proof -
  have c: "PrefixTable scenario_env = ''table''" "AppPodTerminal scenario_env = ''pod-terminal''"
    by (simp_all add: scenario_env_def)
  have a: "strategies scenario_env ''unknown-type'' = None"
    by (simp add: strategies_def c)
  have b: "strategies scenario_env ''table'' = Some [''pod-terminal'' \<mapsto> Some podTerminalChecker]"
    by (simp add: strategies_def c)
  show ?thesis
    using strategy_selection [of scenario_env "''unknown-type''" "''x''"]
      strategy_selection [of scenario_env "''table''" "''unknown''"] a b c
    by simp
qed

subsection \<open>Canonicalisation\<close>



text \<open>
  C7. With the string helpers as the specification describes them (a join that fails on
  an empty item, and a join of the action names), every request that passes validation
  gets the action \<open>*\<close> when it has no actions, and the domain \<open>*\<close> when its domain
  type or its domain id is empty.
\<close>

theorem wildcards:
  assumes asm: "Assemble2CasbinStr env = Assemble2CasbinStr_spec sep"
    and jn: "JointActs2RuleActStr env = JointActs2RuleActStr_spec actSep"
    and canon: "getCasbinItemsFromReqPermission env reqPms = Inr items"
  shows "(Acts reqPms = [] \<longrightarrow> ReqAct items = ''*'') \<and>
         (DomainType reqPms = [] \<or> DomainId reqPms = [] \<longrightarrow> ReqDom items = ''*'')"
  using canon
  by (auto simp add: getCasbinItemsFromReqPermission_def asm jn Assemble2CasbinStr_spec_def
        JointActs2RuleActStr_spec_def Let_def split: if_splits)

text \<open>C7, witness: no actions, and a domain type without a domain id.\<close>

theorem wildcards_witness:
  "getCasbinItemsFromReqPermission scenario_env
      (scenario_req\<lparr>Acts := [], DomainType := ''env'', DomainId := []\<rparr>)
    = Inr \<lparr>ReqSub = ''user:7'', ReqObj = ''table:T1:sub:read'', ReqAct = ''*'', ReqDom = ''*''\<rparr>"
proof -
  let ?r = "scenario_req\<lparr>Acts := [], DomainType := ''env'', DomainId := []\<rparr>"
  let ?i = "\<lparr>ReqSub = ''user:7'', ReqObj = ''table:T1:sub:read'', ReqAct = ''*'', ReqDom = ''*''\<rparr>"
  have a: "Assemble2CasbinStr scenario_env = Assemble2CasbinStr_spec '':''"
    by (simp add: scenario_env_def)
  have j: "JointActs2RuleActStr scenario_env = JointActs2RuleActStr_spec '',''"
    by (simp add: scenario_env_def)
  have c: "getCasbinItemsFromReqPermission scenario_env ?r = Inr ?i"
    by code_simp
  from wildcards [OF a j c] c show ?thesis by simp
qed

text \<open>
  C10. Whatever the string helpers return, canonicalisation fails exactly when a
  required field is zero or empty or the object type is not permitted. When it
  succeeds, the subject and the object are the strings the assembler returned, its
  errors unread, and an error of the assembler on the domain gives the domain \<open>*\<close>.
\<close>

theorem canonicalisation_failures:
  "(isl (getCasbinItemsFromReqPermission env reqPms) \<longleftrightarrow>
      (UserId reqPms = 0 \<or> ObjectType reqPms = [] \<or> ObjectIdx reqPms = [] \<or> SubResource reqPms = [])
      \<or> ObjectType reqPms \<notin> PermittedPrefixMap env) \<and>
   (\<forall>items. getCasbinItemsFromReqPermission env reqPms = Inr items \<longrightarrow>
      ReqSub items = fst (Assemble2CasbinStr env [PrefixUser env, Itoa (UserId reqPms)]) \<and>
      ReqObj items = fst (Assemble2CasbinStr env
         [ObjectType reqPms, ObjectIdx reqPms, PrefixSubRsrc env, SubResource reqPms]) \<and>
      (snd (Assemble2CasbinStr env [DomainType reqPms, DomainId reqPms]) \<noteq> None \<longrightarrow>
         ReqDom items = ''*''))"
  by (auto simp add: getCasbinItemsFromReqPermission_def Let_def split: prod.splits)

text \<open>
  C10, witness: an assembler that fails on every call. The scenario request still
  canonicalises, to empty subject and object and the wildcard domain.
\<close>

theorem canonicalisation_failures_witness:
  "snd (Assemble2CasbinStr unassembled_env [PrefixUser unassembled_env, Itoa (UserId scenario_req)])
     = Some (External ''assemble failed'') \<and>
   getCasbinItemsFromReqPermission unassembled_env scenario_req
     = Inr \<lparr>ReqSub = [], ReqObj = [], ReqAct = ''select'', ReqDom = ''*''\<rparr>"
proof -
  let ?i = "\<lparr>ReqSub = [], ReqObj = [], ReqAct = ''select'', ReqDom = ''*''\<rparr>"
  have e: "snd (Assemble2CasbinStr unassembled_env [PrefixUser unassembled_env, Itoa (UserId scenario_req)])
     = Some (External ''assemble failed'')"
    by (simp add: unassembled_env_def failing_Assemble2CasbinStr_def)
  have v: "\<not> (UserId scenario_req = 0 \<or> ObjectType scenario_req = [] \<or> ObjectIdx scenario_req = []
              \<or> SubResource scenario_req = [])"
    by (simp add: scenario_req_def)
  have p: "ObjectType scenario_req \<in> PermittedPrefixMap unassembled_env"
    by (simp add: scenario_req_def unassembled_env_def scenario_env_def)
  have j: "JointActs2RuleActStr unassembled_env (Acts scenario_req) = ''select''"
    by (simp add: scenario_req_def unassembled_env_def scenario_env_def JointActs2RuleActStr_spec_def)
  have a: "\<And>items. Assemble2CasbinStr unassembled_env items = ([], Some (External ''assemble failed''))"
    by (simp add: unassembled_env_def failing_Assemble2CasbinStr_def)
  from canonicalisation_failures [of unassembled_env scenario_req] v p
  obtain items where i: "getCasbinItemsFromReqPermission unassembled_env scenario_req = Inr items"
    by (cases "getCasbinItemsFromReqPermission unassembled_env scenario_req") auto
  with canonicalisation_failures [of unassembled_env scenario_req] a
  have "ReqSub items = [] \<and> ReqObj items = [] \<and> ReqDom items = ''*''" by simp
  moreover have "ReqAct items = ''select''"
    using i v p j by (auto simp add: getCasbinItemsFromReqPermission_def Let_def a)
  ultimately have "items = ?i" by (cases items) simp
  with i e show ?thesis by simp
qed

subsection \<open>Reading the engine's answer\<close>

text \<open>
  C6. Once a check has reached the engine (the gate passed, the user is not root, the
  request canonicalised), its verdict is read from the boolean alone: nil for true, the
  no-permission error for false, whatever error the engine returned beside it. This
  holds for the any-of call of the default checker and for the single call of the
  pod-terminal checker.
\<close>

theorem verdict_from_boolean:
  assumes gate: "CheckDomLockIfActWrite env reqPms = None"
    and root: "\<not> fst (isRootUser env (UserId reqPms))"
    and canon: "getCasbinItemsFromReqPermission env reqPms = Inr items"
  shows "(ObjectType reqPms \<noteq> PrefixRoute env \<longrightarrow>
            EnforceOneInMany env [[ReqSub items, ReqObj items, ReqAct items, ReqDom items]]
              = (passed, engineErr) \<longrightarrow>
            fst (defaultChecker_Check env reqPms) = (if passed then None else Some NoPermission)) \<and>
         (Enforce env (ReqSub items) (ReqObj items) (ReqAct items) (ReqDom items)
              = (passed', engineErr') \<longrightarrow>
            fst (podTerminalChecker_Check env reqPms) = (if passed' then None else Some NoPermission))"
proof -
  obtain t2 where r: "isRootUser env (UserId reqPms) = (False, t2)"
    using isRootUser_not_root [OF root] by blast
  show ?thesis
    using gate r canon
    by (simp add: defaultChecker_Check_def podTerminalChecker_Check_def Convert2InterfaceSlice_def)
qed

text \<open>
  C6, witness: a rule store that returns an error with every answer. User 7 is still
  permitted (true with an error), user 8 is denied (false with an error).
\<close>

theorem verdict_from_boolean_witness:
  "Enforce degraded_env ''user:7'' ''table:T1:sub:read'' ''select'' ''*''
     = (True, Some (External ''rule store unavailable'')) \<and>
   fst (podTerminalChecker_Check degraded_env scenario_req) = None \<and>
   EnforceOneInMany degraded_env [[''user:8'', ''table:T1:sub:read'', ''select'', ''*'']]
     = (False, Some (External ''rule store unavailable'')) \<and>
   fst (defaultChecker_Check degraded_env (scenario_req\<lparr>UserId := 8\<rparr>)) = Some NoPermission"
proof -
  let ?i7 = "\<lparr>ReqSub = ''user:7'', ReqObj = ''table:T1:sub:read'', ReqAct = ''select'', ReqDom = ''*''\<rparr>"
  let ?i8 = "\<lparr>ReqSub = ''user:8'', ReqObj = ''table:T1:sub:read'', ReqAct = ''select'', ReqDom = ''*''\<rparr>"
  have g7: "CheckDomLockIfActWrite degraded_env scenario_req = None" by code_simp
  have r7: "\<not> fst (isRootUser degraded_env (UserId scenario_req))" by code_simp
  have c7: "getCasbinItemsFromReqPermission degraded_env scenario_req = Inr ?i7" by code_simp
  have e7: "Enforce degraded_env ''user:7'' ''table:T1:sub:read'' ''select'' ''*''
     = (True, Some (External ''rule store unavailable''))" by code_simp
  have g8: "CheckDomLockIfActWrite degraded_env (scenario_req\<lparr>UserId := 8\<rparr>) = None" by code_simp
  have r8: "\<not> fst (isRootUser degraded_env (UserId (scenario_req\<lparr>UserId := 8\<rparr>)))" by code_simp
  have c8: "getCasbinItemsFromReqPermission degraded_env (scenario_req\<lparr>UserId := 8\<rparr>) = Inr ?i8"
    by code_simp
  have e8: "EnforceOneInMany degraded_env [[''user:8'', ''table:T1:sub:read'', ''select'', ''*'']]
     = (False, Some (External ''rule store unavailable''))" by code_simp
  have t8: "ObjectType (scenario_req\<lparr>UserId := 8\<rparr>) \<noteq> PrefixRoute degraded_env" by code_simp
  from verdict_from_boolean [OF g7 r7 c7, of True "Some (External ''rule store unavailable'')"
         True "Some (External ''rule store unavailable'')"] e7
  have a: "fst (podTerminalChecker_Check degraded_env scenario_req) = None" by simp
  from verdict_from_boolean [OF g8 r8 c8, of False "Some (External ''rule store unavailable'')"
         False "Some (External ''rule store unavailable'')"] e8 t8
  have b: "fst (defaultChecker_Check degraded_env (scenario_req\<lparr>UserId := 8\<rparr>)) = Some NoPermission"
    by simp
  from a b e7 e8 show ?thesis by simp
qed

subsection \<open>The two checkers compared\<close>

text \<open>
  C9. Away from the route category, the default checker and the pod-terminal checker
  return the same error-or-nil, provided the any-of call on the one canonical rule of
  the request gives the boolean the single call gives on it.
\<close>

theorem checkers_agree:
  assumes notroute: "ObjectType reqPms \<noteq> PrefixRoute env"
    and agree: "\<forall>items. getCasbinItemsFromReqPermission env reqPms = Inr items \<longrightarrow>
        fst (EnforceOneInMany env [[ReqSub items, ReqObj items, ReqAct items, ReqDom items]])
          = fst (Enforce env (ReqSub items) (ReqObj items) (ReqAct items) (ReqDom items))"
  shows "fst (defaultChecker_Check env reqPms) = fst (podTerminalChecker_Check env reqPms)"
proof (cases "CheckDomLockIfActWrite env reqPms")
  case (Some err)
  with notroute show ?thesis
    by (simp add: defaultChecker_Check_def podTerminalChecker_Check_def)
next
  case None
  obtain root t2 where r: "isRootUser env (UserId reqPms) = (root, t2)"
    by (cases "isRootUser env (UserId reqPms)")
  show ?thesis
  proof (cases "getCasbinItemsFromReqPermission env reqPms")
    case (Inl err)
    with notroute None r show ?thesis
      by (cases root) (simp_all add: defaultChecker_Check_def podTerminalChecker_Check_def)
  next
    case (Inr items)
    obtain p1 e1 where any:
      "EnforceOneInMany env [[ReqSub items, ReqObj items, ReqAct items, ReqDom items]] = (p1, e1)"
      by (cases "EnforceOneInMany env [[ReqSub items, ReqObj items, ReqAct items, ReqDom items]]")
    obtain p2 e2 where one:
      "Enforce env (ReqSub items) (ReqObj items) (ReqAct items) (ReqDom items) = (p2, e2)"
      by (cases "Enforce env (ReqSub items) (ReqObj items) (ReqAct items) (ReqDom items)")
    from agree Inr any one have "p1 = p2" by simp
    with notroute None r Inr any one show ?thesis
      by (cases root) (simp_all add: defaultChecker_Check_def podTerminalChecker_Check_def
            Convert2InterfaceSlice_def Let_def)
  qed
qed

text \<open>
  C9, witness: with the any-of adapter of the specification over the scenario's engine,
  both checkers permit user 7 and both deny user 8.
\<close>

theorem checkers_agree_witness:
  "fst (defaultChecker_Check scenario_env scenario_req) = None \<and>
   fst (podTerminalChecker_Check scenario_env scenario_req) = None \<and>
   fst (defaultChecker_Check scenario_env (scenario_req\<lparr>UserId := 8\<rparr>)) = Some NoPermission \<and>
   fst (podTerminalChecker_Check scenario_env (scenario_req\<lparr>UserId := 8\<rparr>)) = Some NoPermission"
proof -
  let ?i7 = "\<lparr>ReqSub = ''user:7'', ReqObj = ''table:T1:sub:read'', ReqAct = ''select'', ReqDom = ''*''\<rparr>"
  let ?i8 = "\<lparr>ReqSub = ''user:8'', ReqObj = ''table:T1:sub:read'', ReqAct = ''select'', ReqDom = ''*''\<rparr>"
  have t7: "ObjectType scenario_req \<noteq> PrefixRoute scenario_env" by code_simp
  have t8: "ObjectType (scenario_req\<lparr>UserId := 8\<rparr>) \<noteq> PrefixRoute scenario_env" by code_simp
  have c7: "getCasbinItemsFromReqPermission scenario_env scenario_req = Inr ?i7" by code_simp
  have c8: "getCasbinItemsFromReqPermission scenario_env (scenario_req\<lparr>UserId := 8\<rparr>) = Inr ?i8"
    by code_simp
  have a7: "fst (EnforceOneInMany scenario_env [[ReqSub ?i7, ReqObj ?i7, ReqAct ?i7, ReqDom ?i7]])
          = fst (Enforce scenario_env (ReqSub ?i7) (ReqObj ?i7) (ReqAct ?i7) (ReqDom ?i7))"
    by code_simp
  have a8: "fst (EnforceOneInMany scenario_env [[ReqSub ?i8, ReqObj ?i8, ReqAct ?i8, ReqDom ?i8]])
          = fst (Enforce scenario_env (ReqSub ?i8) (ReqObj ?i8) (ReqAct ?i8) (ReqDom ?i8))"
    by code_simp
  have d7: "fst (defaultChecker_Check scenario_env scenario_req) = None" by code_simp
  have d8: "fst (defaultChecker_Check scenario_env (scenario_req\<lparr>UserId := 8\<rparr>)) = Some NoPermission"
    by code_simp
  from checkers_agree [OF t7] c7 a7 d7
  have p7: "fst (podTerminalChecker_Check scenario_env scenario_req) = None" by simp
  from checkers_agree [OF t8] c8 a8 d8
  have p8: "fst (podTerminalChecker_Check scenario_env (scenario_req\<lparr>UserId := 8\<rparr>)) = Some NoPermission"
    by simp
  from d7 d8 p7 p8 show ?thesis by simp
qed

subsection \<open>Route bypass\<close>

text \<open>
  C8. A request whose \<open>ObjectType\<close> is the route category is permitted by the default
  checker at once: the result is nil and no call has left the package, whatever the
  other fields and whatever the collaborators would have answered.
\<close>

theorem route_bypass:
  "ObjectType reqPms = PrefixRoute env \<Longrightarrow> defaultChecker_Check env reqPms = (None, [])"
  by (simp add: defaultChecker_Check_def)

text \<open>
  C8, witness: the anonymous user 0 writing to a route in the locked domain, with every
  other required field empty.
\<close>

theorem route_bypass_witness:
  "defaultChecker_Check scenario_env
     \<lparr>UserId = 0, ObjectType = ''route'', ObjectIdx = [], SubResource = [],
      Acts = [''write''], DomainType = ''env'', DomainId = ''prod''\<rparr> = (None, [])"
proof -
  have "ObjectType \<lparr>UserId = 0, ObjectType = ''route'', ObjectIdx = [], SubResource = [],
      Acts = [''write''], DomainType = ''env'', DomainId = ''prod''\<rparr> = PrefixRoute scenario_env"
    by (simp add: scenario_env_def)
  from route_bypass [OF this] show ?thesis .
qed

end
